theory Spec2Isabelle
  imports Complex_Main
begin

chapter \<open>Usage quota and caching core of the image-compression platform\<close>

text \<open>
  A shallow embedding of the quota ledger (\<^verbatim>\<open>shared/schema.ts\<close>: UnifiedOperationCounter,
  ScopedOperationCounter), the legacy tracker (\<^verbatim>\<open>server/usageTracker.ts\<close>), the scope
  middleware (\<^verbatim>\<open>server/scopeMiddleware.ts\<close>) and the result cache
  (\<^verbatim>\<open>attached_assets/performance-caching_1757404672749.js\<close>: PerformanceOptimizer).
\<close>

section \<open>JavaScript values\<close>

text \<open>
  Values that arrive from the client (headers, query parameters, JSON body fields). The code
  only tests them for truthiness, for being a string, and for string equality, so every falsy
  value that is not a string (undefined, null, 0, false) is \<open>JUndefined\<close> and every truthy
  value that is not a string (an array, an object, a non-zero number, true) is \<open>JOther\<close>.
\<close>

datatype jsval = JUndefined | JStr string | JOther

fun truthy :: "jsval \<Rightarrow> bool" where
  "truthy JUndefined = False"
| "truthy (JStr s) = (s \<noteq> [])"
| "truthy JOther = True"

text \<open>\<^verbatim>\<open>a || b\<close>\<close>

definition js_or :: "jsval \<Rightarrow> jsval \<Rightarrow> jsval" where
  "js_or a b = (if truthy a then a else b)"

text \<open>\<^verbatim>\<open>s.startsWith(p)\<close>\<close>

definition startsWith :: "string \<Rightarrow> string \<Rightarrow> bool" where
  "startsWith s p = (take (length p) s = p)"

text \<open>
  \<^verbatim>\<open>s.toUpperCase()\<close> on the ASCII letters; the format names the code compares with are
  ASCII.
\<close>

definition upperChar :: "char \<Rightarrow> char" where
  "upperChar c =
     (let n = (of_char c :: nat) in if 97 \<le> n \<and> n \<le> 122 then char_of (n - 32) else c)"

definition toUpperCase :: "string \<Rightarrow> string" where
  "toUpperCase s = map upperChar s"

text \<open>A string option read as a JavaScript value (\<open>None\<close> is undefined).\<close>

fun truthyStr :: "string option \<Rightarrow> bool" where
  "truthyStr None = False"
| "truthyStr (Some s) = (s \<noteq> [])"

section \<open>Result cache: TTL by format (PerformanceOptimizer.calculateTTL)\<close>

text \<open>The request body passed to the cache, with the fields the cache reads.\<close>

record params =
  format :: "string option"
  outputFormat :: "string option"
  quality :: "int option"
  width :: "int option"
  height :: "int option"
  fileHash :: "string option"

definition baseTTL :: rat where
  "baseTTL = 3600"

definition multipliers :: "(string \<times> rat) list" where
  "multipliers = [(''RAW'', 4), (''AVIF'', 2), (''WEBP'', 3 / 2), (''JPG'', 1)]"

text \<open>
  \<^verbatim>\<open>const format = params.format?.toUpperCase();
  const multiplier = multipliers[format] || 1;
  return Math.floor(baseTTL * multiplier);\<close>
  The four multipliers and their products with 3600 are exact in binary floating point, so the
  arithmetic is done in the rationals.
\<close>

definition calculateTTL :: "params \<Rightarrow> int" where
  "calculateTTL p =
     (let fmt = map_option toUpperCase (format p);
          multiplier = (case fmt of
                          None \<Rightarrow> 1
                        | Some f \<Rightarrow> (case map_of multipliers f of None \<Rightarrow> 1 | Some m \<Rightarrow> m))
      in \<lfloor>baseTTL * multiplier\<rfloor>)"

section \<open>Time\<close>

text \<open>
  A \<^verbatim>\<open>Date\<close> is its \<^verbatim>\<open>getTime()\<close>, the milliseconds since the epoch, an integer. The
  local time zone of the server is a fixed offset \<open>tz\<close> in milliseconds (local = UTC + tz).
  All clock reads of one call (\<^verbatim>\<open>new Date()\<close> for \<open>now\<close>, \<open>today\<close>, \<open>currentHour\<close>)
  are taken at the same instant \<open>now\<close>.
\<close>

type_synonym timestamp = int

definition msPerHour :: int where
  "msPerHour = 60 * 60 * 1000"

definition msPerDay :: int where
  "msPerDay = 24 * 60 * 60 * 1000"

text \<open>\<^verbatim>\<open>d.setHours(0, 0, 0, 0)\<close>: the start of the local day of \<open>t\<close>.\<close>

definition startOfDay :: "int \<Rightarrow> timestamp \<Rightarrow> timestamp" where
  "startOfDay tz t = t - (t + tz) mod msPerDay"

text \<open>\<^verbatim>\<open>d.setMinutes(0, 0, 0)\<close>: the start of the local hour of \<open>t\<close>.\<close>

definition startOfHour :: "int \<Rightarrow> timestamp \<Rightarrow> timestamp" where
  "startOfHour tz t = t - (t + tz) mod msPerHour"



text \<open>
  The local calendar date of a timestamp, as \<^verbatim>\<open>getFullYear()\<close>, \<^verbatim>\<open>getMonth()\<close> (0 to 11)
  and \<^verbatim>\<open>getDate()\<close> (1 to 31) give it: the proleptic Gregorian calendar. Day 0 is
  1970-01-01; 1600-01-01 is day -135140, and 400 years have 146097 days.
\<close>

definition isLeapYear :: "nat \<Rightarrow> bool" where
  "isLeapYear y = (y mod 4 = 0 \<and> (y mod 100 \<noteq> 0 \<or> y mod 400 = 0))"

definition daysInYear :: "nat \<Rightarrow> nat" where
  "daysInYear y = (if isLeapYear y then 366 else 365)"









primrec daysBeforeYear :: "nat \<Rightarrow> nat" where
  "daysBeforeYear 0 = 0"
| "daysBeforeYear (Suc y) = daysBeforeYear y + daysInYear y"

section \<open>Requests and rows\<close>

text \<open>The parts of an Express request that the quota and scope code reads.\<close>

record request =
  hdrSessionId :: jsval \<comment> \<open>\<^verbatim>\<open>req.headers['x-session-id']\<close>\<close>
  hdrUserAgent :: "string option" \<comment> \<open>\<^verbatim>\<open>req.headers['user-agent']\<close>\<close>
  hdrUsageScope :: jsval \<comment> \<open>\<^verbatim>\<open>req.headers['x-usage-scope']\<close>\<close>
  hdrPlanId :: jsval \<comment> \<open>\<^verbatim>\<open>req.headers['x-plan-id']\<close>\<close>
  bodyClientSessionId :: jsval \<comment> \<open>\<^verbatim>\<open>req.body?.clientSessionId\<close>\<close>
  bodyPageSource :: jsval \<comment> \<open>\<^verbatim>\<open>req.body?.pageSource\<close>\<close>
  queryPageSource :: jsval \<comment> \<open>\<^verbatim>\<open>req.query?.pageSource\<close>\<close>
  queryPlanId :: jsval \<comment> \<open>\<^verbatim>\<open>req.query?.planId\<close>\<close>
  queryScope :: jsval \<comment> \<open>\<^verbatim>\<open>req.query.scope\<close>\<close>
  ip :: "string option" \<comment> \<open>\<^verbatim>\<open>req.ip\<close>\<close>
  remoteAddress :: "string option" \<comment> \<open>\<^verbatim>\<open>req.connection.remoteAddress\<close>\<close>
  pageIdentifier :: "string option" \<comment> \<open>\<^verbatim>\<open>req.context?.pageIdentifier\<close>\<close>
  pageScope :: "string option" \<comment> \<open>\<^verbatim>\<open>req.context?.pageScope\<close>\<close>
  isAuthenticated :: bool \<comment> \<open>\<^verbatim>\<open>req.isAuthenticated && req.isAuthenticated()\<close>\<close>
  userSub :: "string option option"
    \<comment> \<open>\<^verbatim>\<open>req.user\<close> (\<open>None\<close> when absent) and its \<^verbatim>\<open>claims?.sub\<close>\<close>
  sessionUserId :: "string option" \<comment> \<open>\<^verbatim>\<open>req.session?.userId\<close>\<close>
  expressSessionId :: "string option" \<comment> \<open>\<^verbatim>\<open>req.session?.id\<close>\<close>

text \<open>Table \<^verbatim>\<open>users\<close>: the columns the counters read and write. Integer columns are nullable.\<close>

record user =
  uid :: string
  subscriptionPlan :: "string option"
  subscriptionTier :: "string option"
  subscriptionStatus :: "string option"
  purchasedCredits :: "int option"
  monthlyOperations :: "int option"
  dailyOperations :: "int option"
  hourlyOperations :: "int option"
  lastOperationAt :: "timestamp option"
  userUpdatedAt :: "timestamp option"

text \<open>Table \<^verbatim>\<open>anonymous_sessions\<close>, keyed by \<open>sessionId\<close>.\<close>

record anonymousSession =
  sessionId :: string
  ipHash :: string
  monthlyOperationsUsed :: "int option"
  dailyOperationsUsed :: "int option"
  hourlyOperationsUsed :: "int option"
  currentPeriodStart :: "timestamp option"
  lastDailyReset :: "timestamp option"
  lastHourlyReset :: "timestamp option"
  updatedAt :: "timestamp option"

text \<open>
  Tables \<^verbatim>\<open>anonymous_session_scopes\<close> and \<^verbatim>\<open>user_scope_counters\<close>, keyed by
  (sessionId, scope) and (userId, scope): the columns that recordScopedOperation writes.
\<close>

record scopeCounter =
  monthlyUsed :: "int option"
  dailyUsed :: "int option"
  hourlyUsed :: "int option"
  scLastOperationAt :: "timestamp option"
  scUpdatedAt :: "timestamp option"

text \<open>Table \<^verbatim>\<open>operations_log\<close>.\<close>

record operationLog =
  logUserId :: "string option"
  logSessionId :: "string option"
  logOperationType :: string
  logFileFormat :: string
  logFileSizeMb :: int
  logInterface :: string
  logPlanId :: string
  logScope :: "string option"

text \<open>
  Table \<^verbatim>\<open>usage_tracking\<close> of the legacy tracker, one row per user id (\<open>Inl\<close>) or browser
  fingerprint (\<open>Inr\<close>): getUsage inserts a row only when its select finds none.
\<close>

record usageRow =
  colTotalCompressions :: "int option"
  colTotalConversions :: "int option"
  colDailyCompressions :: "int option"
  colDailyConversions :: "int option"
  colCurrentCredits :: "int option"
  colLastResetDate :: "timestamp option"
  colUpdatedAt :: "timestamp option"

text \<open>
  Table \<^verbatim>\<open>lead_magnet_signups\<close>, keyed by e-mail: credits granted and credits used. The
  storage functions that read and write it are not part of the sources and are parameters.
\<close>

type_synonym leadMagnetTable = "string \<rightharpoonup> int \<times> int"

record db =
  users :: "string \<rightharpoonup> user"
  anonymousSessions :: "string \<rightharpoonup> anonymousSession"
  anonymousSessionScopes :: "string \<times> string \<rightharpoonup> scopeCounter"
  userScopeCounters :: "string \<times> string \<rightharpoonup> scopeCounter"
  operationsLog :: "operationLog list"
  leadMagnetSignups :: leadMagnetTable
  usageTracking :: "string + string \<rightharpoonup> usageRow"

text \<open>
  OperationContext and ScopedOperationContext (\<open>scope\<close> and \<open>planId\<close> are read by the scoped
  counter only).
\<close>

record operationContext =
  userId :: "string option"
  ctxSessionId :: "string option"
  scope :: string
  planId :: string
  operationType :: string
  fileFormat :: string
  fileSizeMb :: rat
  opInterface :: string
  req :: "request option"
  leadMagnetEmail :: "string option"

text \<open>\<^verbatim>\<open>Math.round(x)\<close>\<close>

definition mathRound :: "rat \<Rightarrow> int" where
  "mathRound x = \<lfloor>x + 1 / 2\<rfloor>"


section \<open>Window resets (UnifiedOperationCounter)\<close>



text \<open>
  \<^verbatim>\<open>const lastDailyReset = session.lastDailyReset ? new Date(...) : new Date(0);
  const today = new Date(); today.setHours(0, 0, 0, 0);
  if (lastDailyReset < today)\<close>
\<close>

definition dailyResetDue :: "int \<Rightarrow> timestamp \<Rightarrow> timestamp option \<Rightarrow> bool" where
  "dailyResetDue tz now lastReset = ((case lastReset of Some t \<Rightarrow> t | None \<Rightarrow> 0) < startOfDay tz now)"

text \<open>
  \<^verbatim>\<open>const lastHourlyReset = session.lastHourlyReset ? new Date(...) : new Date(0);
  const currentHour = new Date(); currentHour.setMinutes(0, 0, 0);
  if (lastHourlyReset < currentHour)\<close>
\<close>

definition hourlyResetDue :: "int \<Rightarrow> timestamp \<Rightarrow> timestamp option \<Rightarrow> bool" where
  "hourlyResetDue tz now lastReset = ((case lastReset of Some t \<Rightarrow> t | None \<Rightarrow> 0) < startOfHour tz now)"





section \<open>Asynchronous calls\<close>

text \<open>
  An \<^verbatim>\<open>async\<close> function is a resumption: it has returned (\<open>Done\<close>), or it waits at an
  \<^verbatim>\<open>await\<close> for one operation of the shared store (a SQL statement, a Redis command),
  which runs atomically on the store and gives the store after it and the rest of the call.
  Node.js runs the code between two awaits without interruption, so the awaits are the only
  points where concurrent requests interleave.
\<close>

datatype ('s, 'r) proc = Done 'r | Await "'s \<Rightarrow> 's \<times> ('s, 'r) proc"

text \<open>One call alone, run to completion.\<close>

primrec exec :: "('s, 'r) proc \<Rightarrow> 's \<Rightarrow> 'r \<times> 's" where
  "exec (Done r) s = (r, s)"
| "exec (Await k) s = (case map_prod id exec (k s) of (s', f) \<Rightarrow> f s')"

text \<open>\<^verbatim>\<open>const r = await m; ... f(r)\<close>\<close>

primrec bind :: "('s, 'a) proc \<Rightarrow> ('a \<Rightarrow> ('s, 'b) proc) \<Rightarrow> ('s, 'b) proc" where
  "bind (Done r) f = f r"
| "bind (Await k) f = Await (\<lambda>s. map_prod id (\<lambda>p. bind p f) (k s))"

text \<open>
  Concurrent calls: the scheduler picks the call that takes its next step. A schedule is the
  list of the indices picked; picking a call that has returned does nothing.
\<close>

fun step_at :: "nat \<Rightarrow> 's \<times> ('s, 'r) proc list \<Rightarrow> 's \<times> ('s, 'r) proc list" where
  "step_at i (s, ps) =
     (if i < length ps then
        (case ps ! i of
           Done r \<Rightarrow> (s, ps)
         | Await k \<Rightarrow> (case k s of (s', p) \<Rightarrow> (s', ps[i := p])))
      else (s, ps))"

definition run :: "nat list \<Rightarrow> 's \<times> ('s, 'r) proc list \<Rightarrow> 's \<times> ('s, 'r) proc list" where
  "run sched c = foldl (\<lambda>c i. step_at i c) c sched"

fun isDone :: "('s, 'r) proc \<Rightarrow> bool" where
  "isDone (Done r) = True"
| "isDone (Await k) = False"

text \<open>What a call has returned, if it has.\<close>

fun outcome :: "('s, 'r) proc \<Rightarrow> 'r option" where
  "outcome (Done r) = Some r"
| "outcome (Await k) = None"

text \<open>
  The exceptions: \<^verbatim>\<open>Error('User not found')\<close>, \<^verbatim>\<open>Error('Either userId or fingerprint must
  be provided')\<close>, the TypeError of reading a property of \<^verbatim>\<open>undefined\<close>, and the failure
  of the image-compute collaborator.
\<close>

datatype error = UserNotFound | NoIdentity | TypeError | ComputeFailed

text \<open>The \<open>updates\<close> object of getUserOperationCounts.\<close>

definition userMonthlyResetNeeded :: "timestamp \<Rightarrow> timestamp option \<Rightarrow> bool" where
  "userMonthlyResetNeeded now lastOp =
     (now - (case lastOp of Some t \<Rightarrow> t | None \<Rightarrow> now) > 30 * 24 * 60 * 60 * 1000)"

definition userUpdates :: "int \<Rightarrow> timestamp \<Rightarrow> user \<Rightarrow> user \<Rightarrow> user" where
  "userUpdates tz now u =
     (\<lambda>r. (if hourlyResetDue tz now (lastOperationAt u)
            then (\<lambda>r. r\<lparr>hourlyOperations := Some 0, lastOperationAt := Some now\<rparr>) else id)
          ((if dailyResetDue tz now (lastOperationAt u)
            then (\<lambda>r. r\<lparr>dailyOperations := Some 0, lastOperationAt := Some now\<rparr>) else id)
          ((if userMonthlyResetNeeded now (lastOperationAt u)
            then (\<lambda>r. r\<lparr>monthlyOperations := Some 0, lastOperationAt := Some now\<rparr>) else id)
           r)))"

definition userNeedsUpdate :: "int \<Rightarrow> timestamp \<Rightarrow> user \<Rightarrow> bool" where
  "userNeedsUpdate tz now u =
     (userMonthlyResetNeeded now (lastOperationAt u)
      \<or> dailyResetDue tz now (lastOperationAt u)
      \<or> hourlyResetDue tz now (lastOperationAt u))"

text \<open>
  UnifiedOperationCounter.getUserOperationCounts: the select; \<^verbatim>\<open>throw new Error('User not
  found')\<close>; the \<open>updates\<close> decided on the row that was read; the update, whose
  \<^verbatim>\<open>returning()\<close> gives the row as it is in the table after the update (no row when it
  has gone, in which case the caller gets \<^verbatim>\<open>undefined\<close>, here the row that was read).
\<close>

definition getUserOperationCounts :: "int \<Rightarrow> timestamp \<Rightarrow> string \<Rightarrow> (db, error + user) proc" where
  "getUserOperationCounts tz now i =
     Await (\<lambda>d. (d,
       (case users d i of
          None \<Rightarrow> Done (Inl UserNotFound)
        | Some u \<Rightarrow>
            if userNeedsUpdate tz now u
            then Await (\<lambda>d. (case users d i of
                               None \<Rightarrow> (d, Done (Inr u))
                             | Some cur \<Rightarrow>
                                 (let u' = userUpdates tz now u cur
                                  in (d\<lparr>users := (users d)(i \<mapsto> u')\<rparr>, Done (Inr u')))))
            else Done (Inr u))))"

section \<open>Example states\<close>

definition exSession :: anonymousSession where
  "exSession = \<lparr>sessionId = ''mj_client_1'', ipHash = ''unknown'',
     monthlyOperationsUsed = Some 7, dailyOperationsUsed = Some 3, hourlyOperationsUsed = Some 2,
     currentPeriodStart = Some 0, lastDailyReset = Some 0, lastHourlyReset = Some 0,
     updatedAt = Some 0\<rparr>"

definition exUser :: user where
  "exUser = \<lparr>uid = ''u1'', subscriptionPlan = None, subscriptionTier = Some ''free_registered'',
     subscriptionStatus = Some ''inactive'', purchasedCredits = Some 0, monthlyOperations = Some 5,
     dailyOperations = Some 4, hourlyOperations = Some 3, lastOperationAt = Some 0,
     userUpdatedAt = Some 0\<rparr>"

definition exDb :: db where
  "exDb = \<lparr>users = [''u1'' \<mapsto> exUser], anonymousSessions = [''mj_client_1'' \<mapsto> exSession],
     anonymousSessionScopes = Map.empty, userScopeCounters = Map.empty,
     operationsLog = [], leadMagnetSignups = Map.empty, usageTracking = Map.empty\<rparr>"

section \<open>Anonymous session identity\<close>

text \<open>
  UnifiedOperationCounter.generateAnonymousSessionId (PageIdentifierOperationCounter has the
  same function). The SHA-256 hex digest is a parameter.
  \<^verbatim>\<open>const clientSessionId = req.headers['x-session-id'] || req.body?.clientSessionId;
  if (clientSessionId && typeof clientSessionId === 'string'
      && clientSessionId.startsWith('mj_client_')) return clientSessionId;\<close>
\<close>

definition clientSessionId :: "request \<Rightarrow> jsval" where
  "clientSessionId r = js_or (hdrSessionId r) (bodyClientSessionId r)"

definition strOr :: "string option \<Rightarrow> string \<Rightarrow> string" where
  "strOr a b = (if truthyStr a then the a else b)"

definition anonHashId :: "(string \<Rightarrow> string) \<Rightarrow> request \<Rightarrow> string" where
  "anonHashId sha256hex r =
     (let ipAddr = strOr (ip r) (strOr (remoteAddress r) ''unknown'');
          userAgent = strOr (hdrUserAgent r) ''unknown'';
          identifier = ipAddr @ '':'' @ userAgent
      in ''anon_'' @ take 16 (sha256hex identifier))"

definition generateAnonymousSessionId :: "(string \<Rightarrow> string) \<Rightarrow> request \<Rightarrow> string" where
  "generateAnonymousSessionId sha256hex r =
     (case clientSessionId r of
        JStr s \<Rightarrow> if s \<noteq> [] \<and> startsWith s ''mj_client_'' then s else anonHashId sha256hex r
      | _ \<Rightarrow> anonHashId sha256hex r)"


section \<open>Plan policy\<close>

text \<open>
  A plan's limits; \<open>None\<close> is \<^verbatim>\<open>null\<close>, an unlimited window. The plan table and its lookups
  (\<^verbatim>\<open>getUnifiedPlan(planId)\<close>, \<^verbatim>\<open>getUserPlan(user)\<close>, \<^verbatim>\<open>getUserPlan(tier)\<close>) are in
  \<^verbatim>\<open>unifiedPlanConfig\<close>, which is not among the sources; they are parameters.
\<close>

record planLimits =
  limMonthlyOperations :: "int option" \<comment> \<open>\<^verbatim>\<open>limits.monthlyOperations\<close>\<close>
  maxOperationsPerDay :: "int option"
  maxOperationsPerHour :: "int option"

record plan =
  planName :: string \<comment> \<open>\<^verbatim>\<open>plan.id\<close>\<close>
  limits :: planLimits

record env =
  tzOffset :: int
  sha256hex :: "string \<Rightarrow> string"
  getUnifiedPlan :: "string \<Rightarrow> plan"
  getUserPlan :: "user + string \<Rightarrow> plan"
  checkLeadMagnetCredits :: "string \<Rightarrow> leadMagnetTable \<Rightarrow> bool \<times> int"
    \<comment> \<open>\<^verbatim>\<open>storage.checkLeadMagnetCredits(email)\<close>: hasCredits, creditsRemaining\<close>
  useLeadMagnetCredits :: "string \<Rightarrow> int \<Rightarrow> leadMagnetTable \<Rightarrow> bool \<times> leadMagnetTable"
    \<comment> \<open>\<^verbatim>\<open>storage.useLeadMagnetCredits(email, n)\<close>\<close>
  generateFingerprint :: "request \<Rightarrow> string"
    \<comment> \<open>UsageTracker.generateFingerprint: a base64 digest of the browser named by the user
        agent and of the accept-language header\<close>







section \<open>Limit check of the unified counter\<close>





section \<open>Legacy usage tracker (UsageTracker)\<close>







text \<open>
  The plan of property P3 (limits monthly 10, daily 5, hourly 2), an environment with it, and
  an anonymous session with usage monthly 9, daily 1, hourly 1.
\<close>

definition p3Plan :: plan where
  "p3Plan = \<lparr>planName = ''anonymous'',
     limits = \<lparr>limMonthlyOperations = Some 10, maxOperationsPerDay = Some 5,
                maxOperationsPerHour = Some 2\<rparr>\<rparr>"

definition p3Plans :: "string \<Rightarrow> plan" where
  "p3Plans pid = p3Plan"

definition p3UserPlan :: "user + string \<Rightarrow> plan" where
  "p3UserPlan a = p3Plan"

definition noLeadMagnetCheck :: "string \<Rightarrow> leadMagnetTable \<Rightarrow> bool \<times> int" where
  "noLeadMagnetCheck email t = (False, 0)"

definition noLeadMagnetUse :: "string \<Rightarrow> int \<Rightarrow> leadMagnetTable \<Rightarrow> bool \<times> leadMagnetTable" where
  "noLeadMagnetUse email n t = (False, t)"

definition exFingerprint :: "request \<Rightarrow> string" where
  "exFingerprint r = ''anon_fp''"

definition exSha :: "string \<Rightarrow> string" where
  "exSha x = x"

definition exEnv :: env where
  "exEnv = \<lparr>tzOffset = 0, sha256hex = exSha, getUnifiedPlan = p3Plans, getUserPlan = p3UserPlan,
     checkLeadMagnetCredits = noLeadMagnetCheck, useLeadMagnetCredits = noLeadMagnetUse,
     generateFingerprint = exFingerprint\<rparr>"

definition exRequest :: request where
  "exRequest = \<lparr>hdrSessionId = JUndefined, hdrUserAgent = Some ''Mozilla/5.0'',
     hdrUsageScope = JUndefined, hdrPlanId = JUndefined, bodyClientSessionId = JUndefined,
     bodyPageSource = JUndefined, queryPageSource = JUndefined, queryPlanId = JUndefined,
     queryScope = JUndefined, ip = Some ''203.0.113.7'', remoteAddress = None,
     pageIdentifier = None, pageScope = None, isAuthenticated = False, userSub = None,
     sessionUserId = None, expressSessionId = None\<rparr>"



definition p3Context :: operationContext where
  "p3Context = \<lparr>userId = None, ctxSessionId = Some ''mj_client_1'', scope = ''main'',
     planId = ''anonymous'', operationType = ''compression'', fileFormat = ''jpg'',
     fileSizeMb = 1, opInterface = ''web'', req = Some exRequest, leadMagnetEmail = None\<rparr>"



section \<open>Scope middleware (requireScopeFromAuth)\<close>

text \<open>
  What the middleware does with the request: it answers with a status and an error message
  (\<^verbatim>\<open>res.status(403).json({ error })\<close>), or it sets \<^verbatim>\<open>req.trackingScope\<close> and
  \<^verbatim>\<open>req.planId\<close> and calls \<^verbatim>\<open>next()\<close>. The flag of \<open>Next\<close> tells whether the
  "Client attempted plan override ... (IGNORED)" warning was logged.
\<close>

datatype mwResult = Respond nat string | Next string string bool

text \<open>\<^verbatim>\<open>switch (pageSource)\<close>\<close>

definition scopeOfPageSource :: "string \<Rightarrow> string" where
  "scopeOfPageSource p =
     (if p = ''premium'' then ''pro''
      else if p = ''enterprise'' then ''enterprise''
      else if p = ''test-premium'' then ''test_premium''
      else if p = ''cr2-converter'' then ''cr2-free''
      else if p = ''free'' \<or> p = ''free-signed'' then ''free''
      else ''main'')"

text \<open>\<^verbatim>\<open>switch (clientPlanId)\<close>\<close>

definition scopeOfClientPlanId :: "string \<Rightarrow> string" where
  "scopeOfClientPlanId p =
     (if p = ''pro'' then ''pro''
      else if p = ''enterprise'' then ''enterprise''
      else if p = ''test_premium'' then ''test_premium''
      else if p = ''cr2-free'' then ''cr2-free''
      else if p = ''free'' then ''free''
      else if p = ''anonymous'' then ''main''
      else ''main'')"

text \<open>
  STEP 1: the scope from pageIdentifier and pageScope (set by another middleware), else from
  \<^verbatim>\<open>req.body?.pageSource || req.query?.pageSource\<close>, else from \<^verbatim>\<open>req.query?.planId\<close>. A
  value that is not a string matches no \<^verbatim>\<open>case\<close> of the \<^verbatim>\<open>switch\<close>.
\<close>

definition requestedScope :: "request \<Rightarrow> string" where
  "requestedScope r =
     (let pageSource = js_or (bodyPageSource r) (queryPageSource r);
          clientPlanId = queryPlanId r
      in if truthyStr (pageIdentifier r) \<and> truthyStr (pageScope r) then the (pageScope r)
         else if truthy pageSource
         then (case pageSource of JStr p \<Rightarrow> scopeOfPageSource p | _ \<Rightarrow> ''main'')
         else if truthy clientPlanId
         then (case clientPlanId of JStr p \<Rightarrow> scopeOfClientPlanId p | _ \<Rightarrow> ''main'')
         else ''main'')"

text \<open>
  STEP 2:
  \<^verbatim>\<open>let userId = isUserAuthenticated && req.user ? req.user.claims?.sub
                                                     : req.session?.userId || undefined;
  if (!userId && req.session && req.session.userId) userId = req.session.userId;\<close>
\<close>

definition resolveUserId :: "request \<Rightarrow> string option" where
  "resolveUserId r =
     (let u0 = (case (isAuthenticated r, userSub r) of
                  (True, Some sub) \<Rightarrow> sub
                | _ \<Rightarrow> if truthyStr (sessionUserId r) then sessionUserId r else None)
      in if \<not> truthyStr u0 \<and> truthyStr (sessionUserId r) then sessionUserId r else u0)"

text \<open>
  \<^verbatim>\<open>const clientScope = req.query.scope || req.headers['x-usage-scope'];
  const clientPlan = req.query.planId || req.headers['x-plan-id'];
  if (clientScope || clientPlan) console.warn(...)\<close>
\<close>

definition clientOverrideLogged :: "request \<Rightarrow> bool" where
  "clientOverrideLogged r =
     (truthy (js_or (queryScope r) (hdrUsageScope r)) \<or> truthy (js_or (queryPlanId r) (hdrPlanId r)))"

definition publicScopes :: "string list" where
  "publicScopes = [''main'', ''free'', ''cr2-free'']"

text \<open>
  scopeMiddleware.requireScopeFromAuth. \<^verbatim>\<open>storage.getUser\<close> and \<^verbatim>\<open>getUserPlan\<close> are
  parameters; an exception of the first is caught by the \<^verbatim>\<open>catch\<close>, which sets scope main
  and plan anonymous.
\<close>

definition requireScopeFromAuth ::
  "(string \<Rightarrow> error + user option) \<Rightarrow> (user + string \<Rightarrow> plan) \<Rightarrow> request \<Rightarrow> mwResult" where
  "requireScopeFromAuth getUser userPlanOf r =
     (let scope0 = requestedScope r;
          warned = clientOverrideLogged r;
          uidOpt = resolveUserId r
      in if truthyStr uidOpt
         then (case getUser (the uidOpt) of
                 Inl err \<Rightarrow> Next ''main'' ''anonymous'' warned
               | Inr (Some u) \<Rightarrow>
                   (let pid = planName (userPlanOf (Inl u))
                    in if scope0 \<in> set [''pro'', ''enterprise'', ''test_premium'', ''free'']
                       then (if scope0 = ''pro'' \<and> pid \<noteq> ''pro''
                             then Respond 403 ''Premium subscription required''
                             else if scope0 = ''enterprise'' \<and> pid \<noteq> ''enterprise''
                             then Respond 403 ''Enterprise subscription required''
                             else if scope0 = ''test_premium'' \<and> pid \<noteq> ''test_premium''
                             then Respond 403 ''Test premium subscription required''
                             else Next scope0 pid warned)
                       else Next scope0 pid warned)
               | Inr None \<Rightarrow>
                   if scope0 \<in> set [''premium'', ''enterprise'', ''test_premium'']
                   then Respond 403 ''Authentication required''
                   else Next scope0 ''anonymous'' warned)
         else if scope0 \<notin> set publicScopes
         then Respond 403 ''Authentication required''
         else Next scope0 (if scope0 = ''cr2-free'' then ''cr2-free'' else ''anonymous'') warned)"

text \<open>
  Example requests of an anonymous client: one that names a plan in the query string, and one
  that asks for the enterprise scope and claims it in the override headers as well.
\<close>

definition noUsers :: "string \<Rightarrow> error + user option" where
  "noUsers i = Inr None"

definition planRequest :: request where
  "planRequest = exRequest\<lparr>queryPlanId := JStr ''cr2-free''\<rparr>"

definition enterpriseRequest :: request where
  "enterpriseRequest = exRequest\<lparr>bodyPageSource := JStr ''enterprise'',
     hdrUsageScope := JStr ''enterprise'', hdrPlanId := JStr ''enterprise''\<rparr>"

section \<open>Result cache (PerformanceOptimizer.getCachedOrProcess)\<close>

text \<open>
  The store the concurrent requests share: the in-memory map \<^verbatim>\<open>this.cache\<close> (a JavaScript
  \<^verbatim>\<open>Map\<close>, which keeps insertion order), the Redis keys \<^verbatim>\<open>cache:<key>\<close> with the TTL they
  were written with, the in-flight markers \<^verbatim>\<open>progress:<key>\<close> with their TTL, the Redis
  metrics hash, and the two counters of \<^verbatim>\<open>this.metrics\<close>. \<open>processCalls\<close> records the
  calls of the process function, so that they can be counted. The expiry of Redis keys over
  time and the timing metrics are not modelled.
\<close>

record cacheStore =
  l1 :: "(string \<times> string) list"
  redisCache :: "string \<rightharpoonup> int \<times> string"
  progress :: "string \<rightharpoonup> int"
  redisMetrics :: "string \<rightharpoonup> int"
  cacheHits :: nat
  cacheMisses :: nat
  processCalls :: "params list"

text \<open>
  What the handler sends: \<^verbatim>\<open>res.json({...result, cached, processingTime})\<close>, or
  \<^verbatim>\<open>res.json(result)\<close> without the flag when the result came from waiting.
\<close>

datatype response = Response string "bool option"

text \<open>
  generateCacheKey: the MD5 hex digest of the JSON text of the six key fields; the digest is
  a parameter.
\<close>

definition generateCacheKey ::
  "(string option \<times> string option \<times> int option \<times> int option \<times> int option \<times> string option \<Rightarrow> string)
   \<Rightarrow> params \<Rightarrow> string" where
  "generateCacheKey md5json p =
     md5json (format p, outputFormat p, quality p, width p, height p, fileHash p)"

text \<open>\<^verbatim>\<open>this.cache.set(key, value)\<close>: an existing key keeps its place.\<close>

definition mapSet :: "string \<Rightarrow> string \<Rightarrow> (string \<times> string) list \<Rightarrow> (string \<times> string) list" where
  "mapSet k v xs =
     (if k \<in> fst ` set xs then map (\<lambda>(k', v'). if k' = k then (k', v) else (k', v')) xs
      else xs @ [(k, v)])"

text \<open>
  checkCache: the in-memory tier, then Redis; a Redis hit is promoted to the in-memory tier.
  The code that runs between two awaits is one step.
\<close>

definition checkCache :: "string \<Rightarrow> (cacheStore, string option) proc" where
  "checkCache key =
     Await (\<lambda>s. case map_of (l1 s) key of
                  Some v \<Rightarrow> (s, Done (Some v))
                | None \<Rightarrow>
                    (case redisCache s key of
                       Some (ttl, v) \<Rightarrow> (s\<lparr>l1 := mapSet key v (l1 s)\<rparr>, Done (Some v))
                     | None \<Rightarrow> (s, Done None)))"

text \<open>\<^verbatim>\<open>redis.get(`progress:${key}`)\<close>, read for its truth value.\<close>

definition checkInProgress :: "string \<Rightarrow> (cacheStore, bool) proc" where
  "checkInProgress key = Await (\<lambda>s. (s, Done (progress s key \<noteq> None)))"

text \<open>\<^verbatim>\<open>redis.setex(`progress:${key}`, 60, 'processing')\<close>\<close>

definition markInProgress :: "string \<Rightarrow> (cacheStore, unit) proc" where
  "markInProgress key = Await (\<lambda>s. (s\<lparr>progress := (progress s)(key \<mapsto> 60)\<rparr>, Done ()))"

text \<open>\<^verbatim>\<open>redis.del(`progress:${key}`)\<close>\<close>

definition clearInProgress :: "string \<Rightarrow> (cacheStore, unit) proc" where
  "clearInProgress key = Await (\<lambda>s. (s\<lparr>progress := (progress s)(key := None)\<rparr>, Done ()))"

text \<open>
  The cache hit: \<^verbatim>\<open>this.metrics.cacheHits++\<close> and touchCache,
  \<^verbatim>\<open>redis.expire(`cache:${key}`, 3600)\<close>.
\<close>

definition touchCache :: "string \<Rightarrow> (cacheStore, unit) proc" where
  "touchCache key =
     Await (\<lambda>s. (case redisCache s key of
                   None \<Rightarrow> s\<lparr>cacheHits := Suc (cacheHits s)\<rparr>
                 | Some (ttl, v) \<Rightarrow> s\<lparr>cacheHits := Suc (cacheHits s),
                                      redisCache := (redisCache s)(key \<mapsto> (3600, v))\<rparr>,
                 Done ()))"

text \<open>\<^verbatim>\<open>redis.hincrby(`metrics:${date}`, field, 1)\<close>\<close>

definition hincrby :: "string \<Rightarrow> (cacheStore, unit) proc" where
  "hincrby field =
     Await (\<lambda>s. (s\<lparr>redisMetrics := (redisMetrics s)(field \<mapsto>
                      (case redisMetrics s field of None \<Rightarrow> 1 | Some n \<Rightarrow> n + 1))\<rparr>, Done ()))"

text \<open>
  cacheResult: the Redis entry with the TTL of calculateTTL, the in-memory entry with the
  eviction of the first key once there are more than 1000, and the two metrics.
\<close>

definition cacheResult :: "string \<Rightarrow> string \<Rightarrow> params \<Rightarrow> (cacheStore, unit) proc" where
  "cacheResult key result p =
     Await (\<lambda>s. (let ys = mapSet key result (l1 s)
                 in s\<lparr>redisCache := (redisCache s)(key \<mapsto> (calculateTTL p, result)),
                      l1 := (if length ys > 1000 then tl ys else ys)\<rparr>,
                 bind (hincrby ''cache_saves'')
                   (\<lambda>_. hincrby (''format:'' @ (case format p of None \<Rightarrow> ''undefined''
                                               | Some f \<Rightarrow> f)))))"

text \<open>\<^verbatim>\<open>await new Promise(resolve => setTimeout(resolve, 500))\<close>\<close>

definition sleep500 :: "(cacheStore, unit) proc" where
  "sleep500 = Await (\<lambda>s. (s, Done ()))"

text \<open>
  waitForResult(key, 30000): every turn of the loop sleeps 500 ms, so the loop makes at most
  60 turns before \<^verbatim>\<open>Date.now() - startTime < timeout\<close> fails; \<open>n\<close> is the number of turns
  left.
\<close>

fun waitForResult :: "string \<Rightarrow> nat \<Rightarrow> (cacheStore, string option) proc" where
  "waitForResult key 0 = Done None"
| "waitForResult key (Suc n) =
     bind (checkCache key) (\<lambda>cached.
       case cached of
         Some v \<Rightarrow> Done (Some v)
       | None \<Rightarrow>
           bind (checkInProgress key) (\<lambda>inProgress.
             if \<not> inProgress then Done None
             else bind sleep500 (\<lambda>_. waitForResult key n)))"

text \<open>The call of the process function (the image-compute collaborator), which may fail.\<close>

definition callProcess ::
  "(params \<Rightarrow> error + string) \<Rightarrow> params \<Rightarrow> (cacheStore, error + string) proc" where
  "callProcess processFunction body =
     Await (\<lambda>s. (s\<lparr>processCalls := processCalls s @ [body]\<rparr>, Done (processFunction body)))"

text \<open>
  Lines 53 to 77 of getCachedOrProcess: mark as in progress, process, cache the result and
  clear the marker; \<^verbatim>\<open>catch (error) { await this.clearInProgress(cacheKey); throw error; }\<close>
\<close>

definition processAndCache ::
  "(params \<Rightarrow> error + string) \<Rightarrow> params \<Rightarrow> string \<Rightarrow> (cacheStore, error + response) proc" where
  "processAndCache processFunction body cacheKey =
     bind (markInProgress cacheKey) (\<lambda>_.
       bind (callProcess processFunction body) (\<lambda>r.
         case r of
           Inr result \<Rightarrow>
             bind (cacheResult cacheKey result body) (\<lambda>_.
               bind (clearInProgress cacheKey) (\<lambda>_.
                 Done (Inr (Response result (Some False)))))
         | Inl err \<Rightarrow>
             bind (clearInProgress cacheKey) (\<lambda>_. Done (Inl err))))"

text \<open>
  PerformanceOptimizer.getCachedOrProcess. After a cache miss, \<^verbatim>\<open>this.metrics.cacheMisses++\<close>
  and checkInProgress are one step.
\<close>

definition getCachedOrProcess ::
  "(string option \<times> string option \<times> int option \<times> int option \<times> int option \<times> string option \<Rightarrow> string)
   \<Rightarrow> (params \<Rightarrow> error + string) \<Rightarrow> params \<Rightarrow> (cacheStore, error + response) proc" where
  "getCachedOrProcess md5json processFunction body =
     (let cacheKey = generateCacheKey md5json body
      in bind (checkCache cacheKey) (\<lambda>cached.
           case cached of
             Some v \<Rightarrow>
               bind (touchCache cacheKey) (\<lambda>_. Done (Inr (Response v (Some True))))
           | None \<Rightarrow>
               bind (Await (\<lambda>s. (s\<lparr>cacheMisses := Suc (cacheMisses s)\<rparr>,
                                 Done (progress s cacheKey \<noteq> None))))
                 (\<lambda>inProgress.
                    if inProgress
                    then bind (waitForResult cacheKey 60) (\<lambda>result.
                           case result of
                             Some v \<Rightarrow> Done (Inr (Response v None))
                           | None \<Rightarrow> processAndCache processFunction body cacheKey)
                    else processAndCache processFunction body cacheKey)))"

text \<open>Example: an empty store, a request body, and process functions that succeed and fail.\<close>

definition emptyStore :: cacheStore where
  "emptyStore = \<lparr>l1 = [], redisCache = Map.empty, progress = Map.empty,
     redisMetrics = Map.empty, cacheHits = 0, cacheMisses = 0, processCalls = []\<rparr>"

definition jpgParams :: params where
  "jpgParams = \<lparr>format = Some ''jpg'', outputFormat = Some ''webp'', quality = Some 80,
     width = Some 100, height = Some 200, fileHash = Some ''abc''\<rparr>"

definition exMd5 ::
  "string option \<times> string option \<times> int option \<times> int option \<times> int option \<times> string option \<Rightarrow> string" where
  "exMd5 k = (case k of (f, out, q, w, h, fh) \<Rightarrow> (case fh of None \<Rightarrow> ''k'' | Some x \<Rightarrow> ''k'' @ x))"

definition okProcess :: "params \<Rightarrow> error + string" where
  "okProcess p = Inr ''bytes''"

definition failProcess :: "params \<Rightarrow> error + string" where
  "failProcess p = Inl ComputeFailed"

section \<open>Recording operations\<close>

text \<open>\<^verbatim>\<open>db.update(t).set(...).where(eq(key, k))\<close>: nothing happens when there is no row.\<close>

definition updateWhere :: "'k \<Rightarrow> ('v \<Rightarrow> 'v) \<Rightarrow> ('k \<rightharpoonup> 'v) \<Rightarrow> ('k \<rightharpoonup> 'v)" where
  "updateWhere k f t = (case t k of None \<Rightarrow> t | Some row \<Rightarrow> t(k \<mapsto> f row))"

text \<open>\<^verbatim>\<open>sql`${column} + 1`\<close>: NULL stays NULL.\<close>

definition plusOne :: "int option \<Rightarrow> int option" where
  "plusOne c = map_option (\<lambda>n. n + 1) c"

text \<open>\<^verbatim>\<open>x || null\<close> on an optional string.\<close>

definition orNull :: "string option \<Rightarrow> string option" where
  "orNull x = (if truthyStr x then x else None)"

text \<open>The row of the operations log; the column \<open>scope\<close> defaults to main.\<close>

definition logEntry :: "operationContext \<Rightarrow> string option \<Rightarrow> string \<Rightarrow> string option \<Rightarrow> operationLog" where
  "logEntry ctx sid pid sc =
     \<lparr>logUserId = orNull (userId ctx), logSessionId = orNull sid,
      logOperationType = operationType ctx, logFileFormat = fileFormat ctx,
      logFileSizeMb = mathRound (fileSizeMb ctx), logInterface = opInterface ctx,
      logPlanId = pid, logScope = sc\<rparr>"

definition insertLog :: "operationLog \<Rightarrow> db \<Rightarrow> db" where
  "insertLog entry d = d\<lparr>operationsLog := operationsLog d @ [entry]\<rparr>"

text \<open>
  ScopedOperationCounter.recordScopedOperation, lines 1466 to 1501: one UPDATE that adds 1 to
  the three counters of the row of (userId, scope), or of (sessionId, scope) with the session
  id \<^verbatim>\<open>context.sessionId || 'fallback_session'\<close>.
\<close>

definition incrementScopedCounters :: "timestamp \<Rightarrow> operationContext \<Rightarrow> (db, unit) proc" where
  "incrementScopedCounters now ctx =
     Await (\<lambda>d.
       (if truthyStr (userId ctx)
        then d\<lparr>userScopeCounters :=
                 updateWhere (the (userId ctx), scope ctx)
                   (\<lambda>row. row\<lparr>monthlyUsed := plusOne (monthlyUsed row),
                               dailyUsed := plusOne (dailyUsed row),
                               hourlyUsed := plusOne (hourlyUsed row),
                               scLastOperationAt := Some now, scUpdatedAt := Some now\<rparr>)
                   (userScopeCounters d)\<rparr>
        else d\<lparr>anonymousSessionScopes :=
                 updateWhere (strOr (ctxSessionId ctx) ''fallback_session'', scope ctx)
                   (\<lambda>row. row\<lparr>monthlyUsed := plusOne (monthlyUsed row),
                               dailyUsed := plusOne (dailyUsed row),
                               hourlyUsed := plusOne (hourlyUsed row),
                               scUpdatedAt := Some now\<rparr>)
                   (anonymousSessionScopes d)\<rparr>,
        Done ()))"

text \<open>ScopedOperationCounter.recordScopedOperation: the log row, then the counters.\<close>

definition recordScopedOperation :: "timestamp \<Rightarrow> operationContext \<Rightarrow> (db, unit) proc" where
  "recordScopedOperation now ctx =
     Await (\<lambda>d. (insertLog (logEntry ctx (ctxSessionId ctx) (planId ctx) (Some (scope ctx))) d,
                 incrementScopedCounters now ctx))"

text \<open>
  UnifiedOperationCounter.recordOperation, lines 887 to 911: one UPDATE that adds 1 to the
  three counters of the user's row, or of the anonymous session's row.
\<close>

definition incrementUserCounters :: "timestamp \<Rightarrow> string \<Rightarrow> (db, error + unit) proc" where
  "incrementUserCounters now i =
     Await (\<lambda>d.
       (d\<lparr>users :=
            updateWhere i
              (\<lambda>row. row\<lparr>monthlyOperations := plusOne (monthlyOperations row),
                          dailyOperations := plusOne (dailyOperations row),
                          hourlyOperations := plusOne (hourlyOperations row),
                          userUpdatedAt := Some now\<rparr>)
              (users d)\<rparr>,
        Done (Inr ())))"

definition incrementSessionCounters :: "timestamp \<Rightarrow> string \<Rightarrow> (db, error + unit) proc" where
  "incrementSessionCounters now sid =
     Await (\<lambda>d.
       (d\<lparr>anonymousSessions :=
            updateWhere sid
              (\<lambda>row. row\<lparr>monthlyOperationsUsed := plusOne (monthlyOperationsUsed row),
                          dailyOperationsUsed := plusOne (dailyOperationsUsed row),
                          hourlyOperationsUsed := plusOne (hourlyOperationsUsed row),
                          updatedAt := Some now\<rparr>)
              (anonymousSessions d)\<rparr>,
        Done (Inr ())))"

text \<open>
  \<^verbatim>\<open>context.sessionId || this.generateAnonymousSessionId(context.req)\<close>; without a request
  the second is a TypeError.
\<close>

definition contextSessionId :: "env \<Rightarrow> operationContext \<Rightarrow> string option" where
  "contextSessionId e ctx =
     (if truthyStr (ctxSessionId ctx) then ctxSessionId ctx
      else map_option (generateAnonymousSessionId (sha256hex e)) (req ctx))"

text \<open>Lines 872 to 911 of recordOperation: the plan id, the log row, the counters.\<close>

definition logAndIncrement :: "env \<Rightarrow> timestamp \<Rightarrow> operationContext \<Rightarrow> (db, error + unit) proc" where
  "logAndIncrement e now ctx =
     bind (if truthyStr (userId ctx)
           then bind (getUserOperationCounts (tzOffset e) now (the (userId ctx)))
                  (\<lambda>r. Done (map_sum id (\<lambda>u. planName (getUserPlan e (Inl u))) r))
           else Done (Inr ''anonymous''))
       (\<lambda>r. case r of
          Inl err \<Rightarrow> Done (Inl err)
        | Inr pid \<Rightarrow>
            Await (\<lambda>d. (insertLog (logEntry ctx (ctxSessionId ctx) pid (Some ''main'')) d,
                        if truthyStr (userId ctx)
                        then incrementUserCounters now (the (userId ctx))
                        else (case contextSessionId e ctx of
                                None \<Rightarrow> Done (Inl TypeError)
                              | Some sid \<Rightarrow> incrementSessionCounters now sid))))"

text \<open>
  UnifiedOperationCounter.recordOperation. With a lead-magnet e-mail whose credits
  \<^verbatim>\<open>storage.useLeadMagnetCredits(email, 1)\<close> takes, the operation is logged under the plan
  lead-magnet and the function returns: "Don't increment regular counters when using lead
  magnet credits".
\<close>

definition recordOperation :: "env \<Rightarrow> timestamp \<Rightarrow> operationContext \<Rightarrow> (db, error + unit) proc" where
  "recordOperation e now ctx =
     (if truthyStr (leadMagnetEmail ctx)
      then Await (\<lambda>d. case useLeadMagnetCredits e (the (leadMagnetEmail ctx)) 1
                             (leadMagnetSignups d) of
                        (creditsUsed, t) \<Rightarrow>
                          (d\<lparr>leadMagnetSignups := t\<rparr>,
                           if creditsUsed
                           then Await (\<lambda>d. (insertLog (logEntry ctx (ctxSessionId ctx)
                                                         ''lead-magnet'' (Some ''main'')) d,
                                            Done (Inr ())))
                           else logAndIncrement e now ctx))
      else logAndIncrement e now ctx)"

text \<open>The identity keys of the ledger, and the three counters of the record of a key.\<close>

datatype ledgerKey =
  UserKey string | SessionKey string | ScopedUserKey string string | ScopedSessionKey string string

definition scopedKey :: "operationContext \<Rightarrow> ledgerKey" where
  "scopedKey ctx =
     (if truthyStr (userId ctx) then ScopedUserKey (the (userId ctx)) (scope ctx)
      else ScopedSessionKey (strOr (ctxSessionId ctx) ''fallback_session'') (scope ctx))"

definition unifiedKey :: "env \<Rightarrow> operationContext \<Rightarrow> ledgerKey option" where
  "unifiedKey e ctx =
     (if truthyStr (userId ctx) then Some (UserKey (the (userId ctx)))
      else map_option SessionKey (contextSessionId e ctx))"

fun counters :: "db \<Rightarrow> ledgerKey \<Rightarrow> (int option \<times> int option \<times> int option) option" where
  "counters d (UserKey i) =
     map_option (\<lambda>u. (monthlyOperations u, dailyOperations u, hourlyOperations u)) (users d i)"
| "counters d (SessionKey sid) =
     map_option (\<lambda>s. (monthlyOperationsUsed s, dailyOperationsUsed s, hourlyOperationsUsed s))
       (anonymousSessions d sid)"
| "counters d (ScopedUserKey i sc) =
     map_option (\<lambda>c. (monthlyUsed c, dailyUsed c, hourlyUsed c)) (userScopeCounters d (i, sc))"
| "counters d (ScopedSessionKey sid sc) =
     map_option (\<lambda>c. (monthlyUsed c, dailyUsed c, hourlyUsed c))
       (anonymousSessionScopes d (sid, sc))"

text \<open>
  Example: a scoped counter row, an environment whose lead-magnet storage grants a credit, a
  context with a lead-magnet e-mail and a context of the registered user.
\<close>

definition exCounter :: scopeCounter where
  "exCounter = \<lparr>monthlyUsed = Some 7, dailyUsed = Some 3, hourlyUsed = Some 2,
     scLastOperationAt = None, scUpdatedAt = None\<rparr>"

definition scopedDb :: db where
  "scopedDb = exDb\<lparr>anonymousSessionScopes := [(''mj_client_1'', ''main'') \<mapsto> exCounter]\<rparr>"

definition grantLeadMagnetUse :: "string \<Rightarrow> int \<Rightarrow> leadMagnetTable \<Rightarrow> bool \<times> leadMagnetTable" where
  "grantLeadMagnetUse email n t = (True, t)"

definition leadEnv :: env where
  "leadEnv = exEnv\<lparr>useLeadMagnetCredits := grantLeadMagnetUse\<rparr>"

definition leadContext :: operationContext where
  "leadContext = p3Context\<lparr>leadMagnetEmail := Some ''lead@example.org''\<rparr>"

definition userContext :: operationContext where
  "userContext = p3Context\<lparr>userId := Some ''u1'', ctxSessionId := None\<rparr>"

section \<open>Counting the increments of concurrent calls\<close>

text \<open>
  A call counts once, with respect to an invariant of the store, an observation of the store
  and an increment of the observation, when from every store that satisfies the invariant
  each of its steps keeps the invariant and the observation, except the last one, which
  applies the increment to the observation and returns.
\<close>

inductive countsOnce :: "('s \<Rightarrow> bool) \<Rightarrow> ('s \<Rightarrow> 'v) \<Rightarrow> ('v \<Rightarrow> 'v) \<Rightarrow> ('s, 'r) proc \<Rightarrow> bool"
  for Inv :: "'s \<Rightarrow> bool" and obs :: "'s \<Rightarrow> 'v" and inc :: "'v \<Rightarrow> 'v" where
  last: "(\<And>s s' p. Inv s \<Longrightarrow> k s = (s', p) \<Longrightarrow> Inv s' \<and> obs s' = inc (obs s) \<and> isDone p)
           \<Longrightarrow> countsOnce Inv obs inc (Await k)"
| more: "(\<And>s s' p. Inv s \<Longrightarrow> k s = (s', p) \<Longrightarrow> Inv s' \<and> obs s' = obs s)
           \<Longrightarrow> (\<And>s s' p. Inv s \<Longrightarrow> k s = (s', p) \<Longrightarrow> countsOnce Inv obs inc p)
           \<Longrightarrow> countsOnce Inv obs inc (Await k)"

definition doneCount :: "('s, 'r) proc list \<Rightarrow> nat" where
  "doneCount ps = length (filter isDone ps)"

text \<open>
  The invariant of a run: every call has returned or still counts once, and the observation
  is the initial one incremented once for every call that has returned.
\<close>

definition counted ::
  "('s \<Rightarrow> bool) \<Rightarrow> ('s \<Rightarrow> 'v) \<Rightarrow> ('v \<Rightarrow> 'v) \<Rightarrow> 'v \<Rightarrow> 's \<times> ('s, 'r) proc list \<Rightarrow> bool" where
  "counted Inv obs inc v0 c =
     (Inv (fst c) \<and> (\<forall>p \<in> set (snd c). isDone p \<or> countsOnce Inv obs inc p)
      \<and> obs (fst c) = (inc ^^ doneCount (snd c)) v0)"

text \<open>The increment of the three counters of a record.\<close>

definition bump ::
  "(int option \<times> int option \<times> int option) option \<Rightarrow> (int option \<times> int option \<times> int option) option" where
  "bump c = map_option (\<lambda>(m, d, h). (plusOne m, plusOne d, plusOne h)) c"

section \<open>Properties\<close>

subsection \<open>Cache TTL ordering\<close>






subsection \<open>Window resets\<close>














lemma exec_Await: "exec (Await k) s = (case k s of (s', p) \<Rightarrow> exec p s')"
  by (simp split: prod.splits)









subsection \<open>Limit check\<close>











subsection \<open>Anonymous session identity\<close>














subsection \<open>Scope middleware\<close>

lemma requestedScope_cong:
  assumes "pageIdentifier r' = pageIdentifier r" and "pageScope r' = pageScope r"
    and "bodyPageSource r' = bodyPageSource r" and "queryPageSource r' = queryPageSource r"
    and "queryPlanId r' = queryPlanId r"
  shows "requestedScope r' = requestedScope r"
  unfolding requestedScope_def by (simp only: assms)

lemma resolveUserId_cong:
  assumes "isAuthenticated r' = isAuthenticated r" and "userSub r' = userSub r"
    and "sessionUserId r' = sessionUserId r"
  shows "resolveUserId r' = resolveUserId r"
  unfolding resolveUserId_def by (simp only: assms)

lemma requestedScope_headers:
  "requestedScope (r\<lparr>hdrUsageScope := a, hdrPlanId := b, queryScope := c\<rparr>) = requestedScope r"
  by (rule requestedScope_cong) simp_all

lemma resolveUserId_headers:
  "resolveUserId (r\<lparr>hdrUsageScope := a, hdrPlanId := b, queryScope := c\<rparr>) = resolveUserId r"
  by (rule resolveUserId_cong) simp_all

lemma requireScopeFromAuth_anonymous:
  assumes "\<not> truthyStr (resolveUserId r)"
  shows "requireScopeFromAuth getUser userPlanOf r =
     (if requestedScope r \<in> set publicScopes
      then Next (requestedScope r)
             (if requestedScope r = ''cr2-free'' then ''cr2-free'' else ''anonymous'')
             (clientOverrideLogged r)
      else Respond 403 ''Authentication required'')"
  using assms by (simp add: requireScopeFromAuth_def Let_def)

text \<open>
  C3 fails on the code. Two requests of the same anonymous client that differ only in the
  client-supplied query parameter \<open>planId\<close> resolve to different pairs: without it to scope
  main and plan anonymous, with \<open>planId=cr2-free\<close> to scope cr2-free and plan cr2-free.
  The value is not discarded, although the warning that is logged for it says IGNORED.
\<close>

theorem client_plan_changes_scope:
  "requireScopeFromAuth noUsers p3UserPlan exRequest = Next ''main'' ''anonymous'' False
   \<and> planRequest = exRequest\<lparr>queryPlanId := JStr ''cr2-free''\<rparr>
   \<and> requireScopeFromAuth noUsers p3UserPlan planRequest = Next ''cr2-free'' ''cr2-free'' True"
  by (simp add: requireScopeFromAuth_def requestedScope_def clientOverrideLogged_def
      resolveUserId_def exRequest_def planRequest_def js_or_def publicScopes_def
      scopeOfClientPlanId_def Let_def)

text \<open>
  C7. A request without a user id (anonymous) resolves only to the scopes main, free and
  cr2-free, with plan cr2-free for the scope cr2-free and plan anonymous otherwise; for every
  other requested scope, in particular enterprise, the answer is 403 "Authentication
  required", whatever the override headers and the query parameter \<open>scope\<close> say; the scope
  that is resolved is the one requested, never a lesser one.
\<close>

theorem anonymous_fails_closed:
  assumes "\<not> truthyStr (resolveUserId r)"
  shows "(requestedScope r \<notin> set [''main'', ''free'', ''cr2-free'']
            \<longrightarrow> requireScopeFromAuth getUser userPlanOf r = Respond 403 ''Authentication required'')
       \<and> (requestedScope r = ''enterprise''
            \<longrightarrow> (\<forall>a b c. requireScopeFromAuth getUser userPlanOf
                          (r\<lparr>hdrUsageScope := a, hdrPlanId := b, queryScope := c\<rparr>)
                        = Respond 403 ''Authentication required''))
       \<and> (\<forall>sc pl w. requireScopeFromAuth getUser userPlanOf r = Next sc pl w
            \<longrightarrow> sc = requestedScope r \<and> sc \<in> set [''main'', ''free'', ''cr2-free'']
              \<and> pl = (if sc = ''cr2-free'' then ''cr2-free'' else ''anonymous''))
       \<and> (\<forall>st msg. requireScopeFromAuth getUser userPlanOf r = Respond st msg
            \<longrightarrow> st = 403 \<and> msg = ''Authentication required''
              \<and> requestedScope r \<notin> set [''main'', ''free'', ''cr2-free''])"
proof -
  have pub: "set publicScopes = set [''main'', ''free'', ''cr2-free'']"
    by (simp only: publicScopes_def)
  have inP: "requestedScope r \<in> set [''main'', ''free'', ''cr2-free'']
      \<Longrightarrow> requireScopeFromAuth getUser userPlanOf r =
          Next (requestedScope r)
             (if requestedScope r = ''cr2-free'' then ''cr2-free'' else ''anonymous'')
             (clientOverrideLogged r)"
    by (simp only: requireScopeFromAuth_anonymous [OF assms] pub if_True)
  have notP: "requestedScope r \<notin> set [''main'', ''free'', ''cr2-free'']
      \<Longrightarrow> requireScopeFromAuth getUser userPlanOf r = Respond 403 ''Authentication required''"
    by (simp only: requireScopeFromAuth_anonymous [OF assms] pub if_False)
  have a: "requestedScope r \<notin> set [''main'', ''free'', ''cr2-free'']
            \<longrightarrow> requireScopeFromAuth getUser userPlanOf r = Respond 403 ''Authentication required''"
    using notP by (rule impI)
  have b: "requestedScope r = ''enterprise''
            \<longrightarrow> (\<forall>a b c. requireScopeFromAuth getUser userPlanOf
                          (r\<lparr>hdrUsageScope := a, hdrPlanId := b, queryScope := c\<rparr>)
                        = Respond 403 ''Authentication required'')"
  proof (intro impI allI)
    fix a b c
    assume e: "requestedScope r = ''enterprise''"
    have n: "\<not> truthyStr (resolveUserId (r\<lparr>hdrUsageScope := a, hdrPlanId := b, queryScope := c\<rparr>))"
      unfolding resolveUserId_headers by (rule assms)
    have "requestedScope (r\<lparr>hdrUsageScope := a, hdrPlanId := b, queryScope := c\<rparr>)
        \<notin> set publicScopes"
      unfolding requestedScope_headers e by (simp add: publicScopes_def)
    then show "requireScopeFromAuth getUser userPlanOf
            (r\<lparr>hdrUsageScope := a, hdrPlanId := b, queryScope := c\<rparr>)
          = Respond 403 ''Authentication required''"
      by (simp only: requireScopeFromAuth_anonymous [OF n] if_False)
  qed
  have c: "\<forall>sc pl w. requireScopeFromAuth getUser userPlanOf r = Next sc pl w
            \<longrightarrow> sc = requestedScope r \<and> sc \<in> set [''main'', ''free'', ''cr2-free'']
              \<and> pl = (if sc = ''cr2-free'' then ''cr2-free'' else ''anonymous'')"
  proof (intro allI impI)
    fix sc pl w
    assume n: "requireScopeFromAuth getUser userPlanOf r = Next sc pl w"
    have m: "requestedScope r \<in> set [''main'', ''free'', ''cr2-free'']"
    proof (rule ccontr)
      assume "requestedScope r \<notin> set [''main'', ''free'', ''cr2-free'']"
      from notP [OF this] n show False by (simp only: mwResult.distinct)
    qed
    from inP [OF m] n have 1: "sc = requestedScope r"
      and 2: "pl = (if requestedScope r = ''cr2-free'' then ''cr2-free'' else ''anonymous'')"
      by (simp_all only: mwResult.inject)
    show "sc = requestedScope r \<and> sc \<in> set [''main'', ''free'', ''cr2-free'']
              \<and> pl = (if sc = ''cr2-free'' then ''cr2-free'' else ''anonymous'')"
      unfolding 1 using m 2 by (intro conjI refl)
  qed
  have d: "\<forall>st msg. requireScopeFromAuth getUser userPlanOf r = Respond st msg
            \<longrightarrow> st = 403 \<and> msg = ''Authentication required''
              \<and> requestedScope r \<notin> set [''main'', ''free'', ''cr2-free'']"
  proof (intro allI impI)
    fix st msg
    assume n: "requireScopeFromAuth getUser userPlanOf r = Respond st msg"
    have m: "requestedScope r \<notin> set [''main'', ''free'', ''cr2-free'']"
    proof
      assume "requestedScope r \<in> set [''main'', ''free'', ''cr2-free'']"
      from inP [OF this] n show False by (simp only: mwResult.distinct)
    qed
    from notP [OF m] n have "st = 403" and "msg = ''Authentication required''"
      by (simp_all only: mwResult.inject)
    with m show "st = 403 \<and> msg = ''Authentication required''
              \<and> requestedScope r \<notin> set [''main'', ''free'', ''cr2-free'']"
      by (intro conjI)
  qed
  show ?thesis by (intro conjI a b c d)
qed

theorem anonymous_fails_closed_witness:
  "requireScopeFromAuth noUsers p3UserPlan enterpriseRequest = Respond 403 ''Authentication required''
   \<and> requireScopeFromAuth noUsers p3UserPlan
        (enterpriseRequest\<lparr>hdrUsageScope := JStr ''main'', hdrPlanId := JStr ''pro'',
           queryScope := JUndefined\<rparr>) = Respond 403 ''Authentication required''"
proof -
  have n: "\<not> truthyStr (resolveUserId enterpriseRequest)"
    by (simp add: resolveUserId_def enterpriseRequest_def exRequest_def)
  have s: "requestedScope enterpriseRequest = ''enterprise''"
    by (simp add: requestedScope_def enterpriseRequest_def exRequest_def js_or_def
        scopeOfPageSource_def)
  have m: "requestedScope enterpriseRequest \<notin> set [''main'', ''free'', ''cr2-free'']"
    unfolding s by simp
  note t = anonymous_fails_closed [OF n, of noUsers p3UserPlan]
  from t [THEN conjunct1] m have a: "requireScopeFromAuth noUsers p3UserPlan enterpriseRequest
      = Respond 403 ''Authentication required''" by (rule mp)
  from t [THEN conjunct2, THEN conjunct1] s
  have "\<forall>a b c. requireScopeFromAuth noUsers p3UserPlan
        (enterpriseRequest\<lparr>hdrUsageScope := a, hdrPlanId := b, queryScope := c\<rparr>)
        = Respond 403 ''Authentication required''" by (rule mp)
  then have b: "requireScopeFromAuth noUsers p3UserPlan
        (enterpriseRequest\<lparr>hdrUsageScope := JStr ''main'', hdrPlanId := JStr ''pro'',
           queryScope := JUndefined\<rparr>) = Respond 403 ''Authentication required''"
    by (elim allE)
  from a b show ?thesis by (rule conjI)
qed

text \<open>
  What the request cannot change through the inputs that are logged as overrides: the headers
  \<open>x-usage-scope\<close> and \<open>x-plan-id\<close> and the query parameter \<open>scope\<close> change nothing but
  the warning.
\<close>

lemma requireScopeFromAuth_ignores_override_headers:
  "requireScopeFromAuth getUser userPlanOf (r\<lparr>hdrUsageScope := a, hdrPlanId := b, queryScope := c\<rparr>)
     = (case requireScopeFromAuth getUser userPlanOf r of
          Respond st msg \<Rightarrow> Respond st msg
        | Next sc pl w \<Rightarrow> Next sc pl
            (clientOverrideLogged (r\<lparr>hdrUsageScope := a, hdrPlanId := b, queryScope := c\<rparr>)))"
  unfolding requireScopeFromAuth_def requestedScope_headers resolveUserId_headers Let_def
  by (simp split: sum.splits option.splits)

subsection \<open>Result cache\<close>

lemma bind_Await: "bind (Await k) f = Await (\<lambda>s. case k s of (s', p) \<Rightarrow> (s', bind p f))"
  by (simp add: map_prod_def)

lemma exec_bind: "exec (bind m f) s = (case exec m s of (r, s') \<Rightarrow> exec (f r) s')"
proof (induction m arbitrary: s)
  case (Done x)
  then show ?case by simp
next
  case (Await k)
  obtain s' p where ks: "k s = (s', p)" by (cases "k s")
  have "p \<in> Basic_BNFs.snds (k s)" by (simp add: ks)
  then have "exec (bind p f) s' = (case exec p s' of (r, s'') \<Rightarrow> exec (f r) s'')"
    using Await.IH [of "k s" p s'] by simp
  then show ?case by (simp add: ks)
qed

lemma exec_checkCache_miss:
  assumes "map_of (l1 s) key = None" and "redisCache s key = None"
  shows "exec (checkCache key) s = (None, s)"
  using assms by (simp add: checkCache_def)

lemma exec_checkInProgress: "exec (checkInProgress key) s = (progress s key \<noteq> None, s)"
  by (simp add: checkInProgress_def)

lemma exec_waitForResult_miss:
  assumes "map_of (l1 s) key = None" and "redisCache s key = None"
  shows "exec (waitForResult key n) s = (None, s)"
proof (induction n)
  case 0
  show ?case by simp
next
  case (Suc n)
  show ?case
    by (simp add: exec_bind exec_checkCache_miss [OF assms] exec_checkInProgress sleep500_def Suc
        exec_Await del: exec.simps(2))
qed

lemma processAndCache_failure:
  assumes "processFunction body = Inl err"
  shows "processAndCache processFunction body key =
           Await (\<lambda>s. (s\<lparr>progress := (progress s)(key \<mapsto> 60)\<rparr>,
             Await (\<lambda>s. (s\<lparr>processCalls := processCalls s @ [body]\<rparr>,
               Await (\<lambda>s. (s\<lparr>progress := (progress s)(key := None)\<rparr>, Done (Inl err)))))))"
  by (simp add: processAndCache_def markInProgress_def callProcess_def clearInProgress_def assms)

lemma exec_processAndCache_failure:
  assumes "processFunction body = Inl err"
  shows "exec (processAndCache processFunction body key) s =
     (Inl err, s\<lparr>progress := (progress s)(key := None),
                 processCalls := processCalls s @ [body]\<rparr>)"
  by (simp add: processAndCache_failure [where processFunction = processFunction, OF assms])

text \<open>
  C4 fails on the code. The marker is set by a plain \<^verbatim>\<open>setex\<close> after a separate \<^verbatim>\<open>get\<close>,
  not by a set-if-absent: two concurrent calls with the same fingerprint that both read the
  marker before either writes it both find none, both set it and both call the process
  function. In the schedule below the two calls alternate step by step from an empty store;
  both return a freshly computed result, and the process function has been called twice. No
  marker expires in this run.
\<close>

theorem single_flight_race:
  "map outcome (snd (run [0, 1, 0, 1, 0, 1, 0, 1, 0, 1, 0, 1, 0, 1, 0, 1]
          (emptyStore, [getCachedOrProcess exMd5 okProcess jpgParams,
                        getCachedOrProcess exMd5 okProcess jpgParams])))
     = [Some (Inr (Response ''bytes'' (Some False))), Some (Inr (Response ''bytes'' (Some False)))]
   \<and> processCalls (fst (run [0, 1, 0, 1, 0, 1, 0, 1, 0, 1, 0, 1, 0, 1, 0, 1]
          (emptyStore, [getCachedOrProcess exMd5 okProcess jpgParams,
                        getCachedOrProcess exMd5 okProcess jpgParams])))
     = [jpgParams, jpgParams]"
  by code_simp

text \<open>
  For comparison, the runs in which the single flight works: a second call that arrives after
  the first has set the marker waits and returns the first call's result, and a second call
  that arrives after the first has finished is served from the cache. The process function is
  called once in both.
\<close>

lemma join_waits_for_result:
  "map outcome (snd (run [0, 0, 0, 1, 1, 0, 0, 1, 0, 0, 0]
          (emptyStore, [getCachedOrProcess exMd5 okProcess jpgParams,
                        getCachedOrProcess exMd5 okProcess jpgParams])))
     = [Some (Inr (Response ''bytes'' (Some False))), Some (Inr (Response ''bytes'' None))]
   \<and> processCalls (fst (run [0, 0, 0, 1, 1, 0, 0, 1, 0, 0, 0]
          (emptyStore, [getCachedOrProcess exMd5 okProcess jpgParams,
                        getCachedOrProcess exMd5 okProcess jpgParams])))
     = [jpgParams]"
  by code_simp

lemma sequential_calls_compute_once:
  "map outcome (snd (run [0, 0, 0, 0, 0, 0, 0, 0, 1, 1]
          (emptyStore, [getCachedOrProcess exMd5 okProcess jpgParams,
                        getCachedOrProcess exMd5 okProcess jpgParams])))
     = [Some (Inr (Response ''bytes'' (Some False))), Some (Inr (Response ''bytes'' (Some True)))]
   \<and> processCalls (fst (run [0, 0, 0, 0, 0, 0, 0, 0, 1, 1]
          (emptyStore, [getCachedOrProcess exMd5 okProcess jpgParams,
                        getCachedOrProcess exMd5 okProcess jpgParams])))
     = [jpgParams]"
  by code_simp

lemma exec_getCachedOrProcess_failure:
  assumes f: "processFunction body = Inl err"
    and m1: "map_of (l1 s) (generateCacheKey md5json body) = None"
    and m2: "redisCache s (generateCacheKey md5json body) = None"
  shows "exec (getCachedOrProcess md5json processFunction body) s =
     (Inl err, s\<lparr>cacheMisses := Suc (cacheMisses s),
                 progress := (progress s)(generateCacheKey md5json body := None),
                 processCalls := processCalls s @ [body]\<rparr>)"
proof -
  define key where "key = generateCacheKey md5json body"
  define s1 where "s1 = s\<lparr>cacheMisses := Suc (cacheMisses s)\<rparr>"
  have c1: "map_of (l1 s1) key = None" "redisCache s1 key = None"
    using m1 m2 by (simp_all add: s1_def key_def)
  have w: "exec (waitForResult key 60) s1 = (None, s1)"
    using c1 by (rule exec_waitForResult_miss)
  have p: "exec (processAndCache processFunction body key) s1 =
     (Inl err, s1\<lparr>progress := (progress s1)(key := None),
                  processCalls := processCalls s1 @ [body]\<rparr>)"
    using f by (rule exec_processAndCache_failure)
  have "exec (getCachedOrProcess md5json processFunction body) s =
      exec (processAndCache processFunction body key) s1"
    unfolding getCachedOrProcess_def Let_def key_def [symmetric]
    using m1 m2 w
    by (simp add: exec_bind exec_checkCache_miss key_def [symmetric] s1_def [symmetric] exec_Await
        del: exec.simps(2))
  with p show ?thesis by (simp add: s1_def key_def)
qed

text \<open>
  C8. When the process function fails, the part of the call from marking on is exactly three
  steps: set the marker, call the process function, delete the marker; only then is the
  failure returned, and no step writes a cache tier. A call that misses the cache, run to
  completion, returns the failure with the marker of its fingerprint cleared and both cache
  tiers as they were.
\<close>

theorem compute_failure_clears_marker:
  assumes "processFunction body = Inl err"
  shows "processAndCache processFunction body key =
           Await (\<lambda>s. (s\<lparr>progress := (progress s)(key \<mapsto> 60)\<rparr>,
             Await (\<lambda>s. (s\<lparr>processCalls := processCalls s @ [body]\<rparr>,
               Await (\<lambda>s. (s\<lparr>progress := (progress s)(key := None)\<rparr>, Done (Inl err)))))))
       \<and> (map_of (l1 s) (generateCacheKey md5json body) = None
            \<and> redisCache s (generateCacheKey md5json body) = None
          \<longrightarrow> (\<exists>s'. exec (getCachedOrProcess md5json processFunction body) s = (Inl err, s')
                 \<and> progress s' (generateCacheKey md5json body) = None
                 \<and> l1 s' = l1 s \<and> redisCache s' = redisCache s
                 \<and> processCalls s' = processCalls s @ [body]))"
proof (intro conjI impI)
  show "processAndCache processFunction body key =
           Await (\<lambda>s. (s\<lparr>progress := (progress s)(key \<mapsto> 60)\<rparr>,
             Await (\<lambda>s. (s\<lparr>processCalls := processCalls s @ [body]\<rparr>,
               Await (\<lambda>s. (s\<lparr>progress := (progress s)(key := None)\<rparr>, Done (Inl err)))))))"
    using assms by (rule processAndCache_failure)
next
  assume "map_of (l1 s) (generateCacheKey md5json body) = None
            \<and> redisCache s (generateCacheKey md5json body) = None"
  then have m1: "map_of (l1 s) (generateCacheKey md5json body) = None"
    and m2: "redisCache s (generateCacheKey md5json body) = None" by simp_all
  show "\<exists>s'. exec (getCachedOrProcess md5json processFunction body) s = (Inl err, s')
                 \<and> progress s' (generateCacheKey md5json body) = None
                 \<and> l1 s' = l1 s \<and> redisCache s' = redisCache s
                 \<and> processCalls s' = processCalls s @ [body]"
    unfolding exec_getCachedOrProcess_failure [where processFunction = processFunction, OF assms m1 m2]
    by simp
qed

theorem compute_failure_clears_marker_witness:
  "\<exists>s'. exec (getCachedOrProcess exMd5 failProcess jpgParams)
            (emptyStore\<lparr>progress := [''kabc'' \<mapsto> 60]\<rparr>) = (Inl ComputeFailed, s')
        \<and> progress s' ''kabc'' = None \<and> l1 s' = [] \<and> redisCache s' = Map.empty
        \<and> processCalls s' = [jpgParams]"
proof -
  have f: "failProcess jpgParams = Inl ComputeFailed" by (simp add: failProcess_def)
  have k: "generateCacheKey exMd5 jpgParams = ''kabc''"
    by (simp add: generateCacheKey_def exMd5_def jpgParams_def)
  have m: "map_of (l1 (emptyStore\<lparr>progress := [''kabc'' \<mapsto> 60]\<rparr>)) (generateCacheKey exMd5 jpgParams) = None
            \<and> redisCache (emptyStore\<lparr>progress := [''kabc'' \<mapsto> 60]\<rparr>) (generateCacheKey exMd5 jpgParams) = None"
    by (simp add: emptyStore_def)
  have i: "l1 (emptyStore\<lparr>progress := [''kabc'' \<mapsto> 60]\<rparr>) = []"
    "redisCache (emptyStore\<lparr>progress := [''kabc'' \<mapsto> 60]\<rparr>) = Map.empty"
    "processCalls (emptyStore\<lparr>progress := [''kabc'' \<mapsto> 60]\<rparr>) = []"
    by (simp_all add: emptyStore_def)
  from compute_failure_clears_marker [where processFunction = failProcess, OF f,
      THEN conjunct2, THEN mp, OF m]
  show ?thesis unfolding k i by simp
qed

subsection \<open>Concurrent increments\<close>

lemma countsOnce_not_done: "countsOnce Inv obs inc p \<Longrightarrow> \<not> isDone p"
  by (erule countsOnce.cases) simp_all

lemma doneCount_update_done:
  assumes "i < length ps" and "\<not> isDone (ps ! i)" and "isDone p"
  shows "doneCount (ps[i := p]) = Suc (doneCount ps)"
  using assms unfolding doneCount_def
proof (induction ps arbitrary: i)
  case Nil
  then show ?case by simp
next
  case (Cons a ps)
  then show ?case by (cases i) simp_all
qed

lemma doneCount_update_same:
  assumes "i < length ps" and "\<not> isDone (ps ! i)" and "\<not> isDone p"
  shows "doneCount (ps[i := p]) = doneCount ps"
  using assms unfolding doneCount_def
proof (induction ps arbitrary: i)
  case Nil
  then show ?case by simp
next
  case (Cons a ps)
  then show ?case by (cases i) simp_all
qed

lemma counted_step:
  assumes "counted Inv obs inc v0 c"
  shows "counted Inv obs inc v0 (step_at i c) \<and> length (snd (step_at i c)) = length (snd c)"
proof -
  obtain s ps where c: "c = (s, ps)" by (cases c)
  from assms c have inv: "Inv s" and all: "\<forall>p \<in> set ps. isDone p \<or> countsOnce Inv obs inc p"
    and ob: "obs s = (inc ^^ doneCount ps) v0" by (simp_all add: counted_def)
  show ?thesis
  proof (cases "i < length ps")
    case False
    with assms c show ?thesis by simp
  next
    case True
    show ?thesis
    proof (cases "ps ! i")
      case (Done r)
      with True assms c show ?thesis by simp
    next
      case (Await k)
      obtain s' p where ks: "k s = (s', p)" by (cases "k s")
      have st: "step_at i c = (s', ps[i := p])" using True Await ks c by simp
      from True all have "isDone (ps ! i) \<or> countsOnce Inv obs inc (ps ! i)" by simp
      with Await have co: "countsOnce Inv obs inc (Await k)" by simp
      have nd: "\<not> isDone (ps ! i)" using Await by simp
      from co have "Inv s' \<and> (isDone p \<or> countsOnce Inv obs inc p)
          \<and> obs s' = (inc ^^ doneCount (ps[i := p])) v0"
      proof (cases rule: countsOnce.cases)
        case last
        then have "Inv s' \<and> obs s' = inc (obs s) \<and> isDone p" using inv ks by blast
        then show ?thesis
          using doneCount_update_done [OF True nd, of p] ob by simp
      next
        case more
        then have a: "Inv s' \<and> obs s' = obs s" and b: "countsOnce Inv obs inc p"
          using inv ks by blast+
        from b have "\<not> isDone p" by (rule countsOnce_not_done)
        then show ?thesis
          using a b doneCount_update_same [OF True nd, of p] ob by simp
      qed
      moreover have "\<forall>q \<in> set (ps[i := p]). q = p \<or> q \<in> set ps"
        by (meson set_update_subset_insert subsetD insertE)
      ultimately have "counted Inv obs inc v0 (s', ps[i := p])"
        using all by (auto simp: counted_def)
      moreover have "length (snd (s', ps[i := p])) = length (snd c)"
        by (simp add: c)
      ultimately show ?thesis by (simp only: st)
    qed
  qed
qed

lemma counted_run:
  assumes "counted Inv obs inc v0 c"
  shows "counted Inv obs inc v0 (run sched c) \<and> length (snd (run sched c)) = length (snd c)"
  using assms unfolding run_def
proof (induction sched arbitrary: c)
  case Nil
  then show ?case by simp
next
  case (Cons i sched)
  from counted_step [OF Cons.prems, of i] Cons.IH [of "step_at i c"]
  show ?case by simp
qed

lemma doneCount_all: "\<forall>p \<in> set ps. isDone p \<Longrightarrow> doneCount ps = length ps"
  by (simp add: doneCount_def)

lemma doneCount_none: "\<forall>p \<in> set ps. \<not> isDone p \<Longrightarrow> doneCount ps = 0"
  by (simp add: doneCount_def)

lemma run_counts:
  assumes inv: "Inv s"
    and good: "\<forall>p \<in> set ps. countsOnce Inv obs inc p"
    and run: "run sched (s, ps) = (s', ps')"
    and fin: "\<forall>p \<in> set ps'. isDone p"
  shows "obs s' = (inc ^^ length ps) (obs s)"
proof -
  have "doneCount ps = 0"
    using good by (intro doneCount_none) (auto dest: countsOnce_not_done)
  then have "counted Inv obs inc (obs s) (s, ps)"
    using inv good by (simp add: counted_def)
  from counted_run [OF this, of sched] run
  have "obs s' = (inc ^^ doneCount ps') (obs s)" and "length ps' = length ps"
    by (simp_all add: counted_def)
  with doneCount_all [OF fin] show ?thesis by simp
qed

end
